theory Spec2Isabelle
  imports Main
begin

section \<open>The CGC certificate spider (src/cgc/spiders/cgc.py)\<close>

text \<open>
  A shallow embedding of the spider's callbacks \<open>parse_home\<close>, \<open>_manual_form_submit\<close>,
  \<open>parse_cert\<close> and \<open>save_image\<close>. A Python generator becomes the list of values it
  yields, the entries it logs and the exception that ends it, if any. Strings are lists
  of characters; a character stands for a code point below 256.
\<close>

subsection \<open>Python values\<close>

datatype py_error =
  FileNotFoundError | ReadError | TypeError | IndexError | ValueError | OSError

datatype level = INFO | WARNING | ERROR

text \<open>One constructor for each logging call of the source, with the values it formats.\<close>

datatype event =
    HomeFetched
  | FoundInputName string
  | InputIdWithoutName string
  | NoInputNameOrId
  | CsvNotFound
  | CsvReadFailed py_error
  | NoCertsFound
  | FoundCerts nat
  | FromResponseFailed py_error
  | ManualAttempt string string string
  | ParsingDetail string string
  | NoImagesFound string
  | FoundImages nat string
  | MkdirFailed string
  | SavedImage string string
  | SaveFailed string

type_synonym log_entry = "level \<times> event"

text \<open>\<open>str.isspace\<close> on the code points below 256.\<close>

definition py_isspace :: "char \<Rightarrow> bool" where
  "py_isspace c = (of_char c \<in> set [9, 10, 11, 12, 13, 28, 29, 30, 31, 32, 133, 160 :: nat])"

text \<open>\<open>str.strip()\<close> without arguments.\<close>

definition strip :: "string \<Rightarrow> string" where
  "strip s = rev (dropWhile py_isspace (rev (dropWhile py_isspace s)))"

text \<open>\<open>str(n)\<close> for a non-negative integer.\<close>

definition digit_char :: "nat \<Rightarrow> char" where
  "digit_char d = ''0123456789'' ! (d mod 10)"

fun str_nat :: "nat \<Rightarrow> string" where
  "str_nat n = (if n < 10 then [digit_char n] else str_nat (n div 10) @ [digit_char (n mod 10)])"

declare str_nat.simps [simp del]

subsection \<open>Loader: the CSV part of \<open>parse_home\<close> (lines 109-131)\<close>

text \<open>
  The input file as \<open>open\<close> and \<open>csv.reader\<close> deliver it: missing, unreadable, or the
  rows of the file in order, the header row first.
\<close>

datatype csv_source = FileMissing | Unreadable | CsvRows "string list list"

text \<open>
  The dictionary \<open>csv.DictReader\<close> builds for a row, looked up with \<open>row.get(key)\<close>:
  \<open>dict(zip(fieldnames, row))\<close>, then every field name beyond the row's length is set to
  \<open>None\<close>.
\<close>

definition row_get :: "string list \<Rightarrow> string list \<Rightarrow> string \<Rightarrow> string option" where
  "row_get fieldnames row key =
     (if key \<in> set (drop (length row) fieldnames) then None
      else map_of (rev (zip fieldnames row)) key)"

text \<open>
  The loop \<open>for row in reader\<close>, the same for the column \<open>Cert\<close> and for the first
  column; \<open>DictReader\<close> skips the rows that are \<open>[]\<close>.
\<close>

fun collect_certs :: "string list \<Rightarrow> string \<Rightarrow> string list list \<Rightarrow> string list" where
  "collect_certs fieldnames key [] = []"
| "collect_certs fieldnames key (row # rows) =
     (if row = [] then collect_certs fieldnames key rows
      else (case row_get fieldnames row key of
              None \<Rightarrow> collect_certs fieldnames key rows
            | Some cert \<Rightarrow>
                if cert \<noteq> [] then strip cert # collect_certs fieldnames key rows
                else collect_certs fieldnames key rows))"

text \<open>
  The \<open>try\<close> block. An empty file leaves \<open>reader.fieldnames\<close> at \<open>None\<close>, and
  \<open>"Cert" in None\<close> raises; an empty header row makes \<open>reader.fieldnames[0]\<close> raise.
\<close>

definition read_certs :: "csv_source \<Rightarrow> py_error + string list" where
  "read_certs src =
     (case src of
        FileMissing \<Rightarrow> Inl FileNotFoundError
      | Unreadable \<Rightarrow> Inl ReadError
      | CsvRows [] \<Rightarrow> Inl TypeError
      | CsvRows (fieldnames # rows) \<Rightarrow>
          if ''Cert'' \<in> set fieldnames then Inr (collect_certs fieldnames ''Cert'' rows)
          else (case fieldnames of
                  [] \<Rightarrow> Inl IndexError
                | first_field # _ \<Rightarrow> Inr (collect_certs fieldnames first_field rows)))"

subsection \<open>Library functions the spider calls\<close>

text \<open>
  The functions of \<open>urllib.parse\<close>, \<open>mimetypes\<close>, \<open>str\<close> and Scrapy that the callbacks
  use are parameters of the model:
  \<^item> \<open>urljoin base ref\<close>, which gives the joined URL or raises;
  \<^item> \<open>unquote\<close>, and the \<open>path\<close> component of \<open>urlsplit\<close>;
  \<^item> \<open>mimetypes.guess_extension\<close>;
  \<^item> \<open>urlencode\<close>, the form encoding of \<open>FormRequest\<close>;
  \<^item> \<open>set_url\<close>, what the constructor of a Scrapy request does with the URL it is given:
    the URL the request gets, or the exception raised (a URL without a scheme is refused);
  \<^item> \<open>upper\<close>, that is \<open>str.upper\<close>;
  \<^item> \<open>FormRequest.from_response\<close> with \<open>clickdata={"name": "lookup"}\<close>, which gives the
    URL, method, headers and body of the request it builds from the page's form, or raises.
\<close>

record input_attrs =
  inp_name :: "string option"
  inp_id :: "string option"

record form_attrs =
  attr_action :: "string option"
  attr_method :: "string option"

text \<open>
  The homepage response, as the selectors of \<open>parse_home\<close> and \<open>_manual_form_submit\<close>
  read it: \<open>response.url\<close>, the attributes of the first \<open>input[type="tel"]\<close> if there
  is one, the attributes of the forms that contain such an input, in document order, and
  the result of \<open>response.css('form input::attr(name)').getall()\<close>.
\<close>

record home_response =
  resp_url :: string
  tel_input :: "input_attrs option"
  tel_forms :: "form_attrs list"
  form_input_names :: "string list"

record lib =
  urljoin :: "string \<Rightarrow> string \<Rightarrow> py_error + string"
  unquote :: "string \<Rightarrow> string"
  urlsplit_path :: "string \<Rightarrow> string"
  guess_extension :: "string \<Rightarrow> string option"
  urlencode :: "(string \<times> string) list \<Rightarrow> string"
  set_url :: "string \<Rightarrow> py_error + string"
  upper :: "string \<Rightarrow> string"
  from_response ::
    "home_response \<Rightarrow> (string \<times> string) list
       \<Rightarrow> py_error + (string \<times> string \<times> (string \<times> string) list \<times> string)"

subsection \<open>Requests\<close>

datatype callback = ParseCert | SaveImage

record meta =
  meta_cert :: string
  meta_proxy :: string
  meta_index :: "nat option"
  meta_formdata :: "(string \<times> string) list option"

record request =
  req_url :: string
  req_method :: string
  req_headers :: "(string \<times> string) list"
  req_body :: string
  req_callback :: callback
  req_meta :: meta
  req_dont_filter :: bool

text \<open>
  What a generator does: the values it yields in order, the entries it logs in order, and
  the exception that leaves it, if one does.
\<close>

record 'a gen =
  yielded :: "'a list"
  logged :: "log_entry list"
  raised :: "py_error option"

definition gen_then :: "'a gen \<Rightarrow> 'a gen \<Rightarrow> 'a gen" where
  "gen_then g h =
     (case raised g of
        Some e \<Rightarrow> g
      | None \<Rightarrow> \<lparr>yielded = yielded g @ yielded h, logged = logged g @ logged h,
                 raised = raised h\<rparr>)"

text \<open>\<open>yield\<close> of a constructed request; a constructor that raises ends the generator.\<close>

definition yield_built :: "log_entry list \<Rightarrow> py_error + 'a \<Rightarrow> 'a gen" where
  "yield_built lg built =
     (case built of
        Inl e \<Rightarrow> \<lparr>yielded = [], logged = lg, raised = Some e\<rparr>
      | Inr r \<Rightarrow> \<lparr>yielded = [r], logged = lg, raised = None\<rparr>)"

text \<open>
  The keyword parameters of \<open>scrapy.Request.__init__\<close>. The signature has no
  \<open>**kwargs\<close>: a call with any other keyword raises \<open>TypeError\<close>, before the body of the
  constructor runs. The body then sets the URL, which raises for a URL it refuses.
\<close>

definition Request_keywords :: "string list" where
  "Request_keywords =
     [''url'', ''callback'', ''method'', ''headers'', ''body'', ''cookies'', ''meta'',
      ''encoding'', ''priority'', ''dont_filter'', ''errback'', ''flags'', ''cb_kwargs'']"

definition scrapy_Request :: "lib \<Rightarrow> string list \<Rightarrow> request \<Rightarrow> py_error + request" where
  "scrapy_Request L keywords r =
     (if list_all (\<lambda>k. k \<in> set Request_keywords) keywords then
        (case set_url L (req_url r) of
           Inl e \<Rightarrow> Inl e
         | Inr u \<Rightarrow> Inr (r\<lparr>req_url := u\<rparr>))
      else Inl TypeError)"

text \<open>
  \<open>FormRequest\<close> takes \<open>formdata\<close> and hands the other keywords to \<open>Request\<close>. With form
  data and method \<open>POST\<close> the encoded form data becomes the body, with the form content
  type; with form data and any other method it is appended to the URL as the query. The
  spider calls it with method \<open>POST\<close> only.
\<close>

definition scrapy_FormRequest ::
  "lib \<Rightarrow> string list \<Rightarrow> (string \<times> string) list \<Rightarrow> request \<Rightarrow> py_error + request" where
  "scrapy_FormRequest L keywords formdata r =
     (if list_all (\<lambda>k. k \<in> set (''formdata'' # Request_keywords)) keywords then
        (case set_url L (req_url r) of
           Inl e \<Rightarrow> Inl e
         | Inr u \<Rightarrow>
             if formdata = [] then Inr (r\<lparr>req_url := u\<rparr>)
             else if req_method r = ''POST'' then
               Inr (r\<lparr>req_url := u,
                      req_headers := [(''Content-Type'', ''application/x-www-form-urlencoded'')],
                      req_body := urlencode L formdata\<rparr>)
             else
               (case set_url L (u @ (if CHR ''?'' \<in> set u then ''&'' else ''?'')
                                  @ urlencode L formdata) of
                  Inl e \<Rightarrow> Inl e
                | Inr v \<Rightarrow> Inr (r\<lparr>req_url := v\<rparr>)))
      else Inl TypeError)"

subsection \<open>Submitter: \<open>_manual_form_submit\<close> (lines 164-203)\<close>

definition fixed_guesses :: "string list" where
  "fixed_guesses = [''cert'', ''certificate'', ''serial'', ''lookup'', ''search'', ''q'']"

definition candidate_field_names :: "home_response \<Rightarrow> string list" where
  "candidate_field_names response = form_input_names response @ fixed_guesses"

definition manual_target :: "lib \<Rightarrow> string option \<Rightarrow> home_response \<Rightarrow> py_error + string" where
  "manual_target L form_action response =
     (case form_action of
        None \<Rightarrow> Inr (resp_url response)
      | Some a \<Rightarrow> if a = [] then Inr (resp_url response) else urljoin L (resp_url response) a)"

text \<open>
  The loop over the candidates ends with \<open>break\<close>: its body runs for the first candidate
  only. The \<open>GET\<close> branch calls \<open>Request\<close> with the keyword \<open>params\<close> (its value is
  \<open>None\<close>, as \<open>Request\<close> has no attribute of that name); the form data is put in the
  request's \<open>meta\<close>.
\<close>

definition manual_form_submit ::
  "lib \<Rightarrow> string \<Rightarrow> string option \<Rightarrow> string \<Rightarrow> meta \<Rightarrow> home_response \<Rightarrow> request gen" where
  "manual_form_submit L cert form_action form_method meta response =
     (case manual_target L form_action response of
        Inl e \<Rightarrow> \<lparr>yielded = [], logged = [], raised = Some e\<rparr>
      | Inr target \<Rightarrow>
         (case candidate_field_names response of
            [] \<Rightarrow> \<lparr>yielded = [], logged = [], raised = None\<rparr>
          | field_name # _ \<Rightarrow>
              (let formdata = [(field_name, cert)];
                   lg = [(INFO, ManualAttempt form_method target field_name)]
               in if form_method = ''GET'' then
                    yield_built lg
                      (scrapy_Request L
                         [''url'', ''method'', ''callback'', ''errback'', ''meta'',
                          ''dont_filter'', ''params'']
                         \<lparr>req_url = target, req_method = ''GET'', req_headers = [],
                          req_body = [], req_callback = ParseCert,
                          req_meta = meta\<lparr>meta_formdata := Some formdata\<rparr>,
                          req_dont_filter = True\<rparr>)
                  else
                    yield_built lg
                      (scrapy_FormRequest L
                         [''url'', ''formdata'', ''method'', ''callback'', ''errback'', ''meta'',
                          ''dont_filter'']
                         formdata
                         \<lparr>req_url = target, req_method = ''POST'', req_headers = [],
                          req_body = [], req_callback = ParseCert, req_meta = meta,
                          req_dont_filter = True\<rparr>))))"

subsection \<open>Form locator and submission loop: \<open>parse_home\<close> (lines 77-162)\<close>

text \<open>Python's truth value of an optional string: \<open>None\<close> and \<open>""\<close> are false.\<close>

definition truthy :: "string option \<Rightarrow> bool" where
  "truthy v = (case v of None \<Rightarrow> False | Some s \<Rightarrow> s \<noteq> [])"

definition input_name_of :: "home_response \<Rightarrow> string option" where
  "input_name_of response = (case tel_input response of None \<Rightarrow> None | Some i \<Rightarrow> inp_name i)"

definition input_id_of :: "home_response \<Rightarrow> string option" where
  "input_id_of response = (case tel_input response of None \<Rightarrow> None | Some i \<Rightarrow> inp_id i)"

definition form_action_of :: "home_response \<Rightarrow> string option" where
  "form_action_of response =
     (case tel_forms response of
        [] \<Rightarrow> None
      | form # _ \<Rightarrow> Some (case attr_action form of None \<Rightarrow> [] | Some a \<Rightarrow> a))"

definition form_method_of :: "lib \<Rightarrow> home_response \<Rightarrow> string" where
  "form_method_of L response =
     (case tel_forms response of
        [] \<Rightarrow> ''POST''
      | form # _ \<Rightarrow> upper L (case attr_method form of None \<Rightarrow> ''POST'' | Some m \<Rightarrow> m))"

definition locator_log :: "home_response \<Rightarrow> log_entry" where
  "locator_log response =
     (case input_name_of response of
        Some n \<Rightarrow>
          if n \<noteq> [] then (INFO, FoundInputName n)
          else if truthy (input_id_of response)
               then (WARNING, InputIdWithoutName (case input_id_of response of None \<Rightarrow> [] | Some i \<Rightarrow> i))
               else (WARNING, NoInputNameOrId)
      | None \<Rightarrow>
          if truthy (input_id_of response)
          then (WARNING, InputIdWithoutName (case input_id_of response of None \<Rightarrow> [] | Some i \<Rightarrow> i))
          else (WARNING, NoInputNameOrId))"

text \<open>The body of \<open>for cert in certs\<close> for one certificate.\<close>

definition submit_cert :: "lib \<Rightarrow> string \<Rightarrow> home_response \<Rightarrow> string \<Rightarrow> request gen" where
  "submit_cert L proxy_url response cert =
     (let meta = \<lparr>meta_cert = cert, meta_proxy = proxy_url, meta_index = None,
                  meta_formdata = None\<rparr>;
          form_action = form_action_of response;
          form_method = form_method_of L response
      in case input_name_of response of
           None \<Rightarrow> manual_form_submit L cert form_action form_method meta response
         | Some input_name \<Rightarrow>
             if input_name = [] then
               manual_form_submit L cert form_action form_method meta response
             else
               (case from_response L response [(input_name, cert)] of
                  Inr (u, m, h, b) \<Rightarrow>
                    \<lparr>yielded = [\<lparr>req_url = u, req_method = m, req_headers = h, req_body = b,
                                 req_callback = ParseCert, req_meta = meta,
                                 req_dont_filter = True\<rparr>],
                     logged = [], raised = None\<rparr>
                | Inl e \<Rightarrow>
                    gen_then
                      \<lparr>yielded = [], logged = [(WARNING, FromResponseFailed e)], raised = None\<rparr>
                      (manual_form_submit L cert form_action form_method meta response)))"

fun submit_all :: "lib \<Rightarrow> string \<Rightarrow> home_response \<Rightarrow> string list \<Rightarrow> request gen" where
  "submit_all L proxy_url response [] = \<lparr>yielded = [], logged = [], raised = None\<rparr>"
| "submit_all L proxy_url response (cert # certs) =
     gen_then (submit_cert L proxy_url response cert) (submit_all L proxy_url response certs)"

definition parse_home :: "lib \<Rightarrow> string \<Rightarrow> csv_source \<Rightarrow> home_response \<Rightarrow> request gen" where
  "parse_home L proxy_url csv response =
     (let lg = [(INFO, HomeFetched), locator_log response]
      in case read_certs csv of
           Inl e \<Rightarrow>
             \<lparr>yielded = [],
              logged = lg @ [if e = FileNotFoundError then (ERROR, CsvNotFound)
                             else (ERROR, CsvReadFailed e)],
              raised = None\<rparr>
         | Inr certs \<Rightarrow>
             if certs = [] then
               \<lparr>yielded = [], logged = lg @ [(ERROR, NoCertsFound)], raised = None\<rparr>
             else
               gen_then
                 \<lparr>yielded = [], logged = lg @ [(INFO, FoundCerts (length certs))], raised = None\<rparr>
                 (submit_all L proxy_url response certs))"

subsection \<open>Extractor: \<open>parse_cert\<close> (lines 205-253)\<close>

text \<open>
  The detail page, as \<open>parse_cert\<close> reads it: \<open>response.url\<close>, the base URL that
  \<open>response.urljoin\<close> resolves against, the \<open>meta\<close> of the request it answers, and the
  results of the three selectors.
\<close>

record cert_response =
  cert_url :: string
  cert_base_url :: string
  cert_meta :: meta
  hrefs :: "string list"
  srcs :: "string list"
  direct_srcs :: "string list"

text \<open>
  The loop \<open>for u in hrefs + srcs + direct_srcs\<close>, with \<open>imgs\<close> as accumulator. A
  reference that \<open>urljoin\<close> refuses ends the loop with the exception.
\<close>

fun collect_imgs ::
  "(string \<Rightarrow> py_error + string) \<Rightarrow> string list \<Rightarrow> string list \<Rightarrow> py_error + string list" where
  "collect_imgs resolve imgs [] = Inr imgs"
| "collect_imgs resolve imgs (u # us) =
     (if u = [] then collect_imgs resolve imgs us
      else (case resolve u of
              Inl e \<Rightarrow> Inl e
            | Inr v \<Rightarrow>
                if v \<in> set imgs then collect_imgs resolve imgs us
                else collect_imgs resolve (imgs @ [v]) us))"

definition extract_imgs :: "lib \<Rightarrow> cert_response \<Rightarrow> py_error + string list" where
  "extract_imgs L response =
     collect_imgs (urljoin L (cert_base_url response)) []
       (hrefs response @ srcs response @ direct_srcs response)"

text \<open>The item: a dictionary in insertion order, \<open>cert\<close> first, then \<open>image_1\<close>, \<open>image_2\<close>, ...\<close>

type_synonym item = "(string \<times> string) list"

definition build_item :: "string \<Rightarrow> string list \<Rightarrow> item" where
  "build_item cert imgs =
     (''cert'', cert) # map (\<lambda>(i, img_url). (''image_'' @ str_nat (i + 1), img_url)) (enumerate 0 imgs)"

datatype emitted = is_Item: Item item | is_Req: Req request

fun download_all :: "lib \<Rightarrow> string \<Rightarrow> string \<Rightarrow> (nat \<times> string) list \<Rightarrow> emitted gen" where
  "download_all L proxy_url cert [] = \<lparr>yielded = [], logged = [], raised = None\<rparr>"
| "download_all L proxy_url cert ((i, img_url) # rest) =
     gen_then
       (yield_built []
          (map_sum id Req
             (scrapy_Request L [''url'', ''callback'', ''errback'', ''meta'', ''dont_filter'']
                \<lparr>req_url = img_url, req_method = ''GET'', req_headers = [], req_body = [],
                 req_callback = SaveImage,
                 req_meta = \<lparr>meta_cert = cert, meta_proxy = proxy_url, meta_index = Some (i + 1),
                             meta_formdata = None\<rparr>,
                 req_dont_filter = True\<rparr>)))
       (download_all L proxy_url cert rest)"

text \<open>
  The image list is built before the item is yielded: an exception of the loop leaves
  \<open>parse_cert\<close> with nothing yielded.
\<close>

definition parse_cert :: "lib \<Rightarrow> string \<Rightarrow> cert_response \<Rightarrow> emitted gen" where
  "parse_cert L proxy_url response =
     (let cert = meta_cert (cert_meta response)
      in case extract_imgs L response of
           Inl e \<Rightarrow>
             \<lparr>yielded = [], logged = [(INFO, ParsingDetail cert (cert_url response))],
              raised = Some e\<rparr>
         | Inr imgs \<Rightarrow>
             gen_then
               \<lparr>yielded = [Item (build_item cert imgs)],
                logged = [(INFO, ParsingDetail cert (cert_url response)),
                          if imgs = [] then (INFO, NoImagesFound cert)
                          else (INFO, FoundImages (length imgs) cert)],
                raised = None\<rparr>
               (download_all L proxy_url cert (enumerate 0 imgs)))"

text \<open>
  A run: every request that \<open>parse_home\<close> yields is sent, \<open>site\<close> gives the detail page
  that answers a request, the response carries the \<open>meta\<close> of its request, and
  \<open>parse_cert\<close> is called on it. The records of the run are the items these calls yield.
\<close>

fun items_of :: "emitted list \<Rightarrow> item list" where
  "items_of [] = []"
| "items_of (Item i # xs) = i # items_of xs"
| "items_of (Req q # xs) = items_of xs"

definition run_items ::
  "lib \<Rightarrow> string \<Rightarrow> csv_source \<Rightarrow> home_response \<Rightarrow> (request \<Rightarrow> cert_response) \<Rightarrow> item list" where
  "run_items L proxy_url csv response site =
     concat (map (\<lambda>q. items_of (yielded (parse_cert L proxy_url ((site q)\<lparr>cert_meta := req_meta q\<rparr>))))
               (yielded (parse_home L proxy_url csv response)))"

subsection \<open>Downloader: \<open>save_image\<close> (lines 255-296)\<close>

text \<open>\<open>posixpath.join\<close> of two components, \<open>basename\<close> and \<open>splitext\<close>.\<close>

definition os_path_join :: "string \<Rightarrow> string \<Rightarrow> string" where
  "os_path_join a b =
     (if b \<noteq> [] \<and> hd b = CHR ''/'' then b
      else if a = [] \<or> last a = CHR ''/'' then a @ b
      else a @ ''/'' @ b)"

definition basename :: "string \<Rightarrow> string" where
  "basename p = rev (takeWhile (\<lambda>c. c \<noteq> CHR ''/'') (rev p))"

text \<open>
  \<open>splitext\<close> splits at the last dot of the last path component, unless only dots come
  before it in that component.
\<close>

definition splitext :: "string \<Rightarrow> string \<times> string" where
  "splitext p =
     (let base = basename p;
          ext = rev (takeWhile (\<lambda>c. c \<noteq> CHR ''.'') (rev base));
          stem = take (length base - Suc (length ext)) base
      in if CHR ''.'' \<in> set base \<and> list_ex (\<lambda>c. c \<noteq> CHR ''.'') stem
         then (take (length p - Suc (length ext)) p, CHR ''.'' # ext)
         else (p, []))"

definition ext_from_url :: "lib \<Rightarrow> string \<Rightarrow> string" where
  "ext_from_url L u =
     (let path = urlsplit_path L (unquote L u);
          base = basename path
      in if CHR ''.'' \<in> set base then snd (splitext base) else [])"

text \<open>
  The image response: \<open>response.url\<close>, the \<open>meta\<close> of the download request, the decoded
  \<open>Content-Type\<close> header if the response has one, and the body.
\<close>

record image_response =
  img_url :: string
  img_meta :: meta
  img_content_type :: "string option"
  img_body :: string

definition ext_from_content_type :: "lib \<Rightarrow> string option \<Rightarrow> string" where
  "ext_from_content_type L header =
     (let ctype = (case header of None \<Rightarrow> [] | Some h \<Rightarrow> h)
      in case guess_extension L (strip (takeWhile (\<lambda>c. c \<noteq> CHR '';'') ctype)) of
           None \<Rightarrow> []
         | Some e \<Rightarrow> e)"

definition choose_ext :: "lib \<Rightarrow> string \<Rightarrow> string option \<Rightarrow> string" where
  "choose_ext L u header =
     (let ext = ext_from_url L u;
          ext = (if ext = [] then ext_from_content_type L header else ext)
      in if ext = [] then ''.jpg'' else ext)"

definition images_store :: string where
  "images_store = ''images''"

definition image_folder :: "image_response \<Rightarrow> string" where
  "image_folder response = os_path_join images_store (meta_cert (img_meta response))"

definition image_path :: "lib \<Rightarrow> image_response \<Rightarrow> string" where
  "image_path L response =
     os_path_join (image_folder response)
       (''image_'' @ str_nat (case meta_index (img_meta response) of None \<Rightarrow> 0 | Some i \<Rightarrow> i)
        @ choose_ext L (img_url response) (img_content_type response))"

text \<open>
  The file system is a map from paths to contents. What the operating system answers is
  given with the call: \<open>os.makedirs\<close> succeeds, fails because the path exists, or fails
  otherwise; \<open>open(path, "wb")\<close> fails, or it opens and empties the file and then
  \<open>f.write\<close> either writes the whole body or fails after some of its bytes.
\<close>

datatype mkdir_outcome = DirOk | DirExistsError | DirOtherError

datatype write_outcome = OpenFails | WriteFails nat | WriteOk

record io_env =
  mkdir_result :: mkdir_outcome
  write_result :: write_outcome

type_synonym filesystem = "string \<rightharpoonup> string"

definition save_image ::
  "lib \<Rightarrow> io_env \<Rightarrow> filesystem \<Rightarrow> image_response \<Rightarrow> filesystem \<times> log_entry list" where
  "save_image L env fs response =
     (let cert = meta_cert (img_meta response);
          folder = image_folder response;
          path = image_path L response
      in if mkdir_result env = DirOtherError then (fs, [(ERROR, MkdirFailed folder)])
         else (case write_result env of
                 OpenFails \<Rightarrow> (fs, [(ERROR, SaveFailed path)])
               | WriteFails k \<Rightarrow>
                   (fs(path \<mapsto> take k (img_body response)), [(ERROR, SaveFailed path)])
               | WriteOk \<Rightarrow>
                   (fs(path \<mapsto> img_body response), [(INFO, SavedImage cert path)])))"

subsection \<open>A small library for the worked examples\<close>

text \<open>
  Stand-ins for the library functions, used for the concrete instances only. Each
  agrees with the Python function on the inputs the instances use: \<open>https\<close> URLs without
  percent escapes, references that are absolute or relative to a base ending in a slash,
  a reference that opens an IPv6 host and does not close it, which \<open>urljoin\<close> refuses,
  form values and method names made of ASCII letters and digits, and a page whose form
  has no action and no hidden field.
\<close>

definition sample_urljoin :: "string \<Rightarrow> string \<Rightarrow> py_error + string" where
  "sample_urljoin base u =
     (if take 3 u = ''//['' \<and> CHR '']'' \<notin> set u then Inl ValueError
      else if take 8 u = ''https://'' then Inr u
      else Inr (base @ u))"

definition sample_urlsplit_path :: "string \<Rightarrow> string" where
  "sample_urlsplit_path u =
     takeWhile (\<lambda>c. c \<noteq> CHR ''?'' \<and> c \<noteq> CHR ''#'') (dropWhile (\<lambda>c. c \<noteq> CHR ''/'') (drop 8 u))"

definition sample_guess_extension :: "string \<Rightarrow> string option" where
  "sample_guess_extension t =
     map_of [(''image/gif'', ''.gif''), (''image/png'', ''.png''), (''image/webp'', ''.webp'')] t"

fun sample_urlencode :: "(string \<times> string) list \<Rightarrow> string" where
  "sample_urlencode [] = []"
| "sample_urlencode [(k, v)] = k @ ''='' @ v"
| "sample_urlencode ((k, v) # kvs) = k @ ''='' @ v @ ''&'' @ sample_urlencode kvs"

fun has_scheme_separator :: "string \<Rightarrow> bool" where
  "has_scheme_separator (a # b # c # rest) =
     ((a = CHR '':'' \<and> b = CHR ''/'' \<and> c = CHR ''/'') \<or> has_scheme_separator (b # c # rest))"
| "has_scheme_separator other = False"

definition sample_set_url :: "string \<Rightarrow> py_error + string" where
  "sample_set_url u =
     (if has_scheme_separator u \<or> take 6 u = ''about:'' \<or> take 5 u = ''data:'' then Inr u
      else Inl ValueError)"

definition sample_upper :: "string \<Rightarrow> string" where
  "sample_upper s =
     map (\<lambda>c. case map_of (zip ''abcdefghijklmnopqrstuvwxyz'' ''ABCDEFGHIJKLMNOPQRSTUVWXYZ'') c of
                None \<Rightarrow> c | Some d \<Rightarrow> d) s"

definition sample_from_response ::
  "home_response \<Rightarrow> (string \<times> string) list
     \<Rightarrow> py_error + (string \<times> string \<times> (string \<times> string) list \<times> string)" where
  "sample_from_response response formdata =
     Inr (resp_url response, ''POST'',
          [(''Content-Type'', ''application/x-www-form-urlencoded'')],
          sample_urlencode ((''lookup'', []) # formdata))"

definition sample_lib :: lib where
  "sample_lib =
     \<lparr>urljoin = sample_urljoin, unquote = id, urlsplit_path = sample_urlsplit_path,
      guess_extension = sample_guess_extension, urlencode = sample_urlencode,
      set_url = sample_set_url, upper = sample_upper,
      from_response = sample_from_response\<rparr>"

text \<open>The same library on a page where \<open>from_response\<close> finds no control named \<open>lookup\<close>.\<close>

definition no_lookup_lib :: lib where
  "no_lookup_lib = sample_lib\<lparr>from_response := (\<lambda>response formdata. Inl ValueError)\<rparr>"

subsection \<open>First-occurrence order, as the specification words it\<close>

text \<open>
  The list without its repeated elements, each element kept at its first occurrence:
  the head stays, and its later copies are removed from the rest.
\<close>

fun first_occurrences :: "'a list \<Rightarrow> 'a list" where
  "first_occurrences [] = []"
| "first_occurrences (x # xs) = x # filter (\<lambda>y. y \<noteq> x) (first_occurrences xs)"

subsection \<open>Pages and responses of the worked examples\<close>

definition home_named :: home_response where
  "home_named =
     \<lparr>resp_url = ''https://www.cgccards.com/'',
      tel_input = Some \<lparr>inp_name = Some ''certNumber'', inp_id = Some ''certInput''\<rparr>,
      tel_forms = [\<lparr>attr_action = None, attr_method = Some ''post''\<rparr>],
      form_input_names = [''certNumber'']\<rparr>"

text \<open>A page whose form has \<open>method="get"\<close> and whose input has an id but no name.\<close>

definition home_get_unnamed :: home_response where
  "home_get_unnamed =
     \<lparr>resp_url = ''https://www.cgccards.com/'',
      tel_input = Some \<lparr>inp_name = None, inp_id = Some ''certInput''\<rparr>,
      tel_forms = [\<lparr>attr_action = None, attr_method = Some ''get''\<rparr>],
      form_input_names = []\<rparr>"

text \<open>The same page with a second, named input in the form.\<close>

definition home_get_token :: home_response where
  "home_get_token =
     \<lparr>resp_url = ''https://www.cgccards.com/'',
      tel_input = Some \<lparr>inp_name = None, inp_id = Some ''certInput''\<rparr>,
      tel_forms = [\<lparr>attr_action = None, attr_method = Some ''get''\<rparr>],
      form_input_names = [''token'']\<rparr>"

text \<open>The page with the two inputs and \<open>method="post"\<close>.\<close>

definition home_post_token :: home_response where
  "home_post_token =
     \<lparr>resp_url = ''https://www.cgccards.com/'',
      tel_input = Some \<lparr>inp_name = None, inp_id = Some ''certInput''\<rparr>,
      tel_forms = [\<lparr>attr_action = None, attr_method = Some ''post''\<rparr>],
      form_input_names = [''token'']\<rparr>"

text \<open>A page whose form has \<open>method="get"\<close> and a named input.\<close>

definition home_get_named :: home_response where
  "home_get_named =
     \<lparr>resp_url = ''https://www.cgccards.com/'',
      tel_input = Some \<lparr>inp_name = Some ''certNumber'', inp_id = None\<rparr>,
      tel_forms = [\<lparr>attr_action = None, attr_method = Some ''get''\<rparr>],
      form_input_names = [''certNumber'']\<rparr>"

definition sample_meta :: "string \<Rightarrow> meta" where
  "sample_meta cert =
     \<lparr>meta_cert = cert, meta_proxy = ''proxy'', meta_index = None, meta_formdata = None\<rparr>"

definition detail_three :: cert_response where
  "detail_three =
     \<lparr>cert_url = ''https://www.cgccards.com/certlookup/77/'',
      cert_base_url = ''https://www.cgccards.com/certlookup/77/'',
      cert_meta = sample_meta ''77'',
      hrefs = [''https://cdn.cgccards.com/a.png'', ''b.jpg''],
      srcs = [''b.jpg'', []],
      direct_srcs = [''https://cdn.cgccards.com/a.png'', ''c.jpg'']\<rparr>"

text \<open>A detail page whose second reference \<open>urljoin\<close> refuses.\<close>

definition detail_bad_reference :: cert_response where
  "detail_bad_reference =
     \<lparr>cert_url = ''https://www.cgccards.com/certlookup/79/'',
      cert_base_url = ''https://www.cgccards.com/certlookup/79/'',
      cert_meta = sample_meta ''79'',
      hrefs = [''a.png'', ''//[x''], srcs = [], direct_srcs = [''b.png'']\<rparr>"

definition front_png :: "string \<Rightarrow> image_response" where
  "front_png cert =
     \<lparr>img_url = ''https://cdn.cgccards.com/img/front.png'',
      img_meta = \<lparr>meta_cert = cert, meta_proxy = ''proxy'', meta_index = Some 1,
                  meta_formdata = None\<rparr>,
      img_content_type = Some ''image/gif'',
      img_body = ''ABCD''\<rparr>"

definition io_ok :: io_env where
  "io_ok = \<lparr>mkdir_result = DirOk, write_result = WriteOk\<rparr>"

section \<open>Properties\<close>

subsection \<open>Generators and the submission loop\<close>

lemma manual_GET:
  "manual_target L form_action response = Inr target \<Longrightarrow>
   manual_form_submit L cert form_action ''GET'' meta response =
     \<lparr>yielded = [],
      logged = [(INFO, ManualAttempt ''GET'' target
                  (case form_input_names response of [] \<Rightarrow> ''cert'' | n # _ \<Rightarrow> n))],
      raised = Some TypeError\<rparr>"
  by (simp add: manual_form_submit_def candidate_field_names_def fixed_guesses_def
      scrapy_Request_def Request_keywords_def yield_built_def split: list.splits)

lemma manual_POST:
  "form_method \<noteq> ''GET'' \<Longrightarrow> manual_target L form_action response = Inr target \<Longrightarrow>
   set_url L target = Inr u \<Longrightarrow>
   manual_form_submit L cert form_action form_method meta response =
     (let field_name = (case form_input_names response of [] \<Rightarrow> ''cert'' | n # _ \<Rightarrow> n) in
     \<lparr>yielded = [\<lparr>req_url = u, req_method = ''POST'',
                  req_headers = [(''Content-Type'', ''application/x-www-form-urlencoded'')],
                  req_body = urlencode L [(field_name, cert)], req_callback = ParseCert,
                  req_meta = meta, req_dont_filter = True\<rparr>],
      logged = [(INFO, ManualAttempt form_method target field_name)],
      raised = None\<rparr>)"
  by (simp add: manual_form_submit_def candidate_field_names_def fixed_guesses_def
      scrapy_FormRequest_def Request_keywords_def yield_built_def Let_def split: list.splits)

lemma manual_dont_filter:
  "list_all req_dont_filter (yielded (manual_form_submit L cert form_action form_method meta response))"
  by (auto simp: manual_form_submit_def candidate_field_names_def fixed_guesses_def
      scrapy_FormRequest_def scrapy_Request_def Request_keywords_def yield_built_def Let_def
      split: list.splits sum.splits)

lemma gen_then_dont_filter:
  "list_all req_dont_filter (yielded g) \<Longrightarrow> list_all req_dont_filter (yielded h) \<Longrightarrow>
   list_all req_dont_filter (yielded (gen_then g h))"
  by (simp add: gen_then_def split: option.splits)

lemma submit_cert_dont_filter:
  "list_all req_dont_filter (yielded (submit_cert L proxy_url response cert))"
  by (auto simp: submit_cert_def Let_def manual_dont_filter intro!: gen_then_dont_filter
      split: option.splits sum.splits)

lemma submit_all_dont_filter:
  "list_all req_dont_filter (yielded (submit_all L proxy_url response certs))"
  by (induction certs) (simp_all add: gen_then_dont_filter submit_cert_dont_filter)

lemma parse_home_dont_filter:
  "list_all req_dont_filter (yielded (parse_home L proxy_url csv response))"
  by (auto simp: parse_home_def Let_def submit_all_dont_filter intro!: gen_then_dont_filter
      split: sum.splits)

lemma sample_method_get: "sample_upper ''get'' = ''GET''"
  by (simp add: sample_upper_def)

lemma sample_method_post: "sample_upper ''post'' = ''POST''"
  by (simp add: sample_upper_def)

subsection \<open>Loader\<close>

text \<open>
  C1. The loader is claimed to skip every row whose identifier is empty after trimming,
  so that the file with header \<open>Cert\<close> and the rows \<open>1234567890\<close>, two spaces,
  \<open>2000000555\<close> gives exactly the two identifiers. The code tests the value before it
  strips it: the row of two spaces passes the test and is stripped to the empty
  identifier, which is loaded between the two others and submitted like them.
\<close>

theorem C1_blank_row_is_loaded_as_empty_identifier:
  "read_certs (CsvRows [[''Cert''], [''1234567890''], [''  ''], [''2000000555'']]) =
     Inr [''1234567890'', [], ''2000000555'']
   \<and> map (\<lambda>r. meta_cert (req_meta r))
        (yielded (parse_home sample_lib ''proxy''
           (CsvRows [[''Cert''], [''1234567890''], [''  ''], [''2000000555'']]) home_named)) =
      [''1234567890'', [], ''2000000555'']"
  by (simp add: read_certs_def row_get_def strip_def py_isspace_def parse_home_def
      submit_cert_def input_name_of_def home_named_def sample_lib_def sample_from_response_def
      gen_then_def)

subsection \<open>Submitter\<close>

text \<open>
  C2. In fallback mode the candidate field names are claimed to be the names observed on
  the form's inputs, in document order, followed by \<open>cert\<close>, \<open>certificate\<close>, \<open>serial\<close>,
  \<open>lookup\<close>, \<open>search\<close>, \<open>q\<close>, and the first candidate alone to be tried, in a single
  submission for each certificate. On a page whose form has \<open>method="get"\<close>, whose
  \<open>tel\<close> input has no name and which has one other input, named \<open>token\<close>, the list
  is as claimed and the one attempt names \<open>token\<close>, but it makes no submission: the
  \<open>GET\<close> branch calls \<open>Request\<close> with the keyword \<open>params\<close> and the call raises. On
  the same page with \<open>method="post"\<close> the one attempt yields one request, whose body is
  the first candidate mapped to the certificate.
\<close>

theorem C2_get_fallback_makes_no_submission:
  "candidate_field_names home_get_token =
     [''token'', ''cert'', ''certificate'', ''serial'', ''lookup'', ''search'', ''q'']
   \<and> form_method_of sample_lib home_get_token = ''GET''
   \<and> manual_form_submit sample_lib ''1234567890'' (form_action_of home_get_token)
        (form_method_of sample_lib home_get_token) (sample_meta ''1234567890'') home_get_token =
      \<lparr>yielded = [],
       logged = [(INFO, ManualAttempt ''GET'' ''https://www.cgccards.com/'' ''token'')],
       raised = Some TypeError\<rparr>
   \<and> form_method_of sample_lib home_post_token = ''POST''
   \<and> manual_form_submit sample_lib ''1234567890'' (form_action_of home_post_token)
        (form_method_of sample_lib home_post_token) (sample_meta ''1234567890'') home_post_token =
      \<lparr>yielded = [\<lparr>req_url = ''https://www.cgccards.com/'', req_method = ''POST'',
                   req_headers = [(''Content-Type'', ''application/x-www-form-urlencoded'')],
                   req_body = ''token=1234567890'', req_callback = ParseCert,
                   req_meta = sample_meta ''1234567890'', req_dont_filter = True\<rparr>],
       logged = [(INFO, ManualAttempt ''POST'' ''https://www.cgccards.com/'' ''token'')],
       raised = None\<rparr>"
proof -
  have m: "form_method_of sample_lib home_get_token = ''GET''"
    by (simp add: form_method_of_def home_get_token_def sample_lib_def sample_method_get)
  have t: "manual_target sample_lib (form_action_of home_get_token) home_get_token
             = Inr ''https://www.cgccards.com/''"
    by (simp add: manual_target_def form_action_of_def home_get_token_def)
  have m': "form_method_of sample_lib home_post_token = ''POST''"
    by (simp add: form_method_of_def home_post_token_def sample_lib_def sample_method_post)
  have t': "manual_target sample_lib (form_action_of home_post_token) home_post_token
             = Inr ''https://www.cgccards.com/''"
    by (simp add: manual_target_def form_action_of_def home_post_token_def)
  have u: "set_url sample_lib ''https://www.cgccards.com/'' = Inr ''https://www.cgccards.com/''"
    by (simp add: sample_lib_def sample_set_url_def)
  have ne: "''POST'' \<noteq> ''GET''" by simp
  have e: "urlencode sample_lib [(''token'', ''1234567890'')] = ''token=1234567890''"
    by (simp add: sample_lib_def)
  have g: "manual_form_submit sample_lib ''1234567890'' (form_action_of home_get_token)
        ''GET'' (sample_meta ''1234567890'') home_get_token =
      \<lparr>yielded = [],
       logged = [(INFO, ManualAttempt ''GET'' ''https://www.cgccards.com/'' ''token'')],
       raised = Some TypeError\<rparr>"
    by (simp add: manual_GET [OF t]) (simp add: home_get_token_def)
  have p: "manual_form_submit sample_lib ''1234567890'' (form_action_of home_post_token)
        ''POST'' (sample_meta ''1234567890'') home_post_token =
      \<lparr>yielded = [\<lparr>req_url = ''https://www.cgccards.com/'', req_method = ''POST'',
                   req_headers = [(''Content-Type'', ''application/x-www-form-urlencoded'')],
                   req_body = ''token=1234567890'', req_callback = ParseCert,
                   req_meta = sample_meta ''1234567890'', req_dont_filter = True\<rparr>],
       logged = [(INFO, ManualAttempt ''POST'' ''https://www.cgccards.com/'' ''token'')],
       raised = None\<rparr>"
    unfolding manual_POST [OF ne t' u] by (simp add: Let_def e home_post_token_def)
  have c: "candidate_field_names home_get_token =
     [''token'', ''cert'', ''certificate'', ''serial'', ''lookup'', ''search'', ''q'']"
    by (simp add: candidate_field_names_def fixed_guesses_def home_get_token_def)
  show ?thesis
    unfolding m m' by (intro conjI c g p refl)
qed

text \<open>
  C3. In fallback mode a form method \<open>GET\<close> is claimed to send the field as a query
  parameter. On a page whose form has \<open>method="get"\<close> and whose input has no name, the
  \<open>GET\<close> branch builds no request: \<open>Request\<close> is called with the target URL as it is
  and with the keyword \<open>params\<close>, which it does not have, so the call raises and the
  exception leaves \<open>parse_home\<close> without any submission.
\<close>

theorem C3_get_fallback_issues_no_request:
  "manual_form_submit sample_lib ''1234567890'' (form_action_of home_get_unnamed)
     (form_method_of sample_lib home_get_unnamed) (sample_meta ''1234567890'') home_get_unnamed =
     \<lparr>yielded = [],
      logged = [(INFO, ManualAttempt ''GET'' ''https://www.cgccards.com/'' ''cert'')],
      raised = Some TypeError\<rparr>
   \<and> parse_home sample_lib ''proxy'' (CsvRows [[''Cert''], [''1234567890'']]) home_get_unnamed =
     \<lparr>yielded = [],
      logged = [(INFO, HomeFetched), (WARNING, InputIdWithoutName ''certInput''),
                (INFO, FoundCerts 1),
                (INFO, ManualAttempt ''GET'' ''https://www.cgccards.com/'' ''cert'')],
      raised = Some TypeError\<rparr>"
proof -
  have m: "form_method_of sample_lib home_get_unnamed = ''GET''"
    by (simp add: form_method_of_def home_get_unnamed_def sample_lib_def sample_method_get)
  have t: "manual_target sample_lib (form_action_of home_get_unnamed) home_get_unnamed
             = Inr ''https://www.cgccards.com/''"
    by (simp add: manual_target_def form_action_of_def home_get_unnamed_def)
  have f: "form_input_names home_get_unnamed = []" by (simp add: home_get_unnamed_def)
  have r: "read_certs (CsvRows [[''Cert''], [''1234567890'']]) = Inr [''1234567890'']"
    by (simp add: read_certs_def row_get_def strip_def py_isspace_def)
  have l: "locator_log home_get_unnamed = (WARNING, InputIdWithoutName ''certInput'')"
    by (simp add: locator_log_def input_name_of_def input_id_of_def truthy_def home_get_unnamed_def)
  have i: "input_name_of home_get_unnamed = None"
    by (simp add: input_name_of_def home_get_unnamed_def)
  show ?thesis
    by (simp add: m f manual_GET [OF t] parse_home_def r l submit_cert_def i gen_then_def)
qed

text \<open>
  C7. A failed normal-mode submission is claimed to be retried in fallback mode for the
  same certificate, without effect on the others. On a page whose form has
  \<open>method="get"\<close>, with \<open>from_response\<close> failing, the fallback for the first of two
  certificates raises in its \<open>GET\<close> branch: no request is yielded for either
  certificate.
\<close>

theorem C7_failed_normal_submission_with_get_form:
  "parse_home no_lookup_lib ''proxy'' (CsvRows [[''Cert''], [''1234567890''], [''2000000555'']])
     home_get_named =
     \<lparr>yielded = [],
      logged = [(INFO, HomeFetched), (INFO, FoundInputName ''certNumber''), (INFO, FoundCerts 2),
                (WARNING, FromResponseFailed ValueError),
                (INFO, ManualAttempt ''GET'' ''https://www.cgccards.com/'' ''certNumber'')],
      raised = Some TypeError\<rparr>"
proof -
  have m: "form_method_of no_lookup_lib home_get_named = ''GET''"
    by (simp add: form_method_of_def home_get_named_def no_lookup_lib_def sample_lib_def
        sample_method_get)
  have t: "manual_target no_lookup_lib (form_action_of home_get_named) home_get_named
             = Inr ''https://www.cgccards.com/''"
    by (simp add: manual_target_def form_action_of_def home_get_named_def)
  have f: "form_input_names home_get_named = [''certNumber'']" by (simp add: home_get_named_def)
  have r: "read_certs (CsvRows [[''Cert''], [''1234567890''], [''2000000555'']])
             = Inr [''1234567890'', ''2000000555'']"
    by (simp add: read_certs_def row_get_def strip_def py_isspace_def)
  have l: "locator_log home_get_named = (INFO, FoundInputName ''certNumber'')"
    by (simp add: locator_log_def input_name_of_def home_get_named_def)
  have i: "input_name_of home_get_named = Some ''certNumber''"
    by (simp add: input_name_of_def home_get_named_def)
  have n: "from_response no_lookup_lib home_get_named fd = Inl ValueError" for fd
    by (simp add: no_lookup_lib_def)
  show ?thesis
    by (simp add: m f manual_GET [OF t] parse_home_def r l submit_cert_def i n gen_then_def)
qed

subsection \<open>Conditions that end the run\<close>

text \<open>
  C8. A failure to load the input is claimed to be the only condition that ends the
  whole run, every other failure being confined to one item and logged. On a page whose
  form has \<open>method="get"\<close>, with \<open>from_response\<close> failing, three identifiers are loaded
  without error; the fallback for the first one raises in its \<open>GET\<close> branch, the
  exception leaves \<open>parse_home\<close>, and no submission is made for any of the three.
  Nothing is logged at the level of an error.
\<close>

theorem C8_one_failed_submission_ends_the_run:
  "read_certs (CsvRows [[''Cert''], [''1234567890''], [''2000000555''], [''3000000777'']]) =
     Inr [''1234567890'', ''2000000555'', ''3000000777'']
   \<and> from_response no_lookup_lib home_get_named [(''certNumber'', ''1234567890'')] = Inl ValueError
   \<and> yielded (parse_home no_lookup_lib ''proxy''
        (CsvRows [[''Cert''], [''1234567890''], [''2000000555''], [''3000000777'']]) home_get_named) = []
   \<and> raised (parse_home no_lookup_lib ''proxy''
        (CsvRows [[''Cert''], [''1234567890''], [''2000000555''], [''3000000777'']]) home_get_named) =
      Some TypeError
   \<and> list_all (\<lambda>entry. fst entry \<noteq> ERROR) (logged (parse_home no_lookup_lib ''proxy''
        (CsvRows [[''Cert''], [''1234567890''], [''2000000555''], [''3000000777'']]) home_get_named))"
proof -
  have m: "form_method_of no_lookup_lib home_get_named = ''GET''"
    by (simp add: form_method_of_def home_get_named_def no_lookup_lib_def sample_lib_def
        sample_method_get)
  have t: "manual_target no_lookup_lib (form_action_of home_get_named) home_get_named
             = Inr ''https://www.cgccards.com/''"
    by (simp add: manual_target_def form_action_of_def home_get_named_def)
  have r: "read_certs (CsvRows [[''Cert''], [''1234567890''], [''2000000555''], [''3000000777'']])
             = Inr [''1234567890'', ''2000000555'', ''3000000777'']"
    by (simp add: read_certs_def row_get_def strip_def py_isspace_def)
  have l: "locator_log home_get_named = (INFO, FoundInputName ''certNumber'')"
    by (simp add: locator_log_def input_name_of_def home_get_named_def)
  have i: "input_name_of home_get_named = Some ''certNumber''"
    by (simp add: input_name_of_def home_get_named_def)
  have n: "from_response no_lookup_lib home_get_named fd = Inl ValueError" for fd
    by (simp add: no_lookup_lib_def)
  show ?thesis
    by (simp add: m manual_GET [OF t] parse_home_def r l submit_cert_def i n gen_then_def)
qed

subsection \<open>Extractor\<close>

lemma set_first_occurrences: "set (first_occurrences xs) = set xs"
  by (induction xs) auto

lemma distinct_first_occurrences: "distinct (first_occurrences xs)"
  by (induction xs) (auto simp: set_first_occurrences)

text \<open>The position of the first occurrence of an element is the length of the prefix before it.\<close>

lemma first_occurrences_order:
  "sorted_wrt (\<lambda>a b. length (takeWhile (\<lambda>y. y \<noteq> a) xs) < length (takeWhile (\<lambda>y. y \<noteq> b) xs))
     (first_occurrences xs)"
proof (induction xs)
  case Nil
  then show ?case by simp
next
  case (Cons x xs)
  let ?P = "\<lambda>zs a b. length (takeWhile (\<lambda>y. y \<noteq> a) zs) < length (takeWhile (\<lambda>y. y \<noteq> b) zs)"
  have "sorted_wrt (?P xs) (filter (\<lambda>y. y \<noteq> x) (first_occurrences xs))"
    using Cons.IH by (rule sorted_wrt_filter)
  then have "sorted_wrt (?P (x # xs)) (filter (\<lambda>y. y \<noteq> x) (first_occurrences xs))"
    by (rule sorted_wrt_mono_rel [rotated]) auto
  then show ?case by auto
qed

lemma collect_imgs_resolved:
  "list_all (\<lambda>u. \<not> isl (resolve u)) (filter (\<lambda>u. u \<noteq> []) us) \<Longrightarrow>
   collect_imgs resolve imgs us =
     Inr (imgs @ filter (\<lambda>v. v \<notin> set imgs)
            (first_occurrences (map (\<lambda>u. projr (resolve u)) (filter (\<lambda>u. u \<noteq> []) us))))"
proof (induction us arbitrary: imgs)
  case Nil
  then show ?case by simp
next
  case (Cons u us)
  show ?case
  proof (cases "u = []")
    case True
    with Cons show ?thesis by simp
  next
    case False
    with Cons.prems obtain v where v: "resolve u = Inr v"
      by (cases "resolve u") auto
    from False Cons.prems have rest: "list_all (\<lambda>u. \<not> isl (resolve u)) (filter (\<lambda>u. u \<noteq> []) us)"
      by simp
    show ?thesis
    proof (cases "v \<in> set imgs")
      case True
      have "filter (\<lambda>w. w \<notin> set imgs) (filter (\<lambda>y. y \<noteq> v) zs) = filter (\<lambda>w. w \<notin> set imgs) zs" for zs
        using True by (induction zs) auto
      with True False v show ?thesis by (simp add: Cons.IH [OF rest])
    next
      case nin: False
      have "filter (\<lambda>w. w \<noteq> v \<and> w \<notin> set imgs) zs
            = filter (\<lambda>w. w \<notin> set imgs) (filter (\<lambda>y. y \<noteq> v) zs)" for zs
        by (induction zs) auto
      with nin False v show ?thesis by (simp add: Cons.IH [OF rest])
    qed
  qed
qed

lemma collect_imgs_refused:
  "filter (\<lambda>u. u \<noteq> []) us = pre @ u # post \<Longrightarrow> list_all (\<lambda>u. \<not> isl (resolve u)) pre \<Longrightarrow>
   resolve u = Inl e \<Longrightarrow> collect_imgs resolve imgs us = Inl e"
proof (induction us arbitrary: imgs pre)
  case Nil
  then show ?case by simp
next
  case (Cons u0 us)
  show ?case
  proof (cases "u0 = []")
    case True
    with Cons show ?thesis by simp
  next
    case False
    with Cons.prems(1) have eq: "u0 # filter (\<lambda>u. u \<noteq> []) us = pre @ u # post" by simp
    show ?thesis
    proof (cases pre)
      case Nil
      with eq have "u0 = u" by simp
      with False Cons.prems(3) show ?thesis by simp
    next
      case (Cons p pre')
      with eq have p: "u0 = p" and rest: "filter (\<lambda>u. u \<noteq> []) us = pre' @ u # post" by simp_all
      from Cons Cons.prems(2) p obtain v where v: "resolve u0 = Inr v"
        by (cases "resolve u0") auto
      from Cons Cons.prems(2) have ok: "list_all (\<lambda>u. \<not> isl (resolve u)) pre'" by simp
      from False v show ?thesis
        by (simp add: Cons.IH [OF rest ok Cons.prems(3)])
    qed
  qed
qed

lemma parse_cert_item_first:
  "extract_imgs L r = Inr imgs \<Longrightarrow>
   hd (yielded (parse_cert L proxy_url r)) = Item (build_item (meta_cert (cert_meta r)) imgs)"
  by (simp add: parse_cert_def gen_then_def Let_def)

lemma parse_cert_refused:
  "extract_imgs L r = Inl e \<Longrightarrow>
   yielded (parse_cert L proxy_url r) = [] \<and> raised (parse_cert L proxy_url r) = Some e"
  by (simp add: parse_cert_def Let_def)

lemma build_item_values: "map snd (build_item cert imgs) = cert # imgs"
  by (simp add: build_item_def enumerate_eq_zip o_def case_prod_unfold)

lemma download_all_dont_filter:
  "list_all (\<lambda>x. case x of Item i \<Rightarrow> True | Req q \<Rightarrow> req_dont_filter q)
     (yielded (download_all L proxy_url cert ius))"
  by (induction ius)
     (auto simp: gen_then_def yield_built_def scrapy_Request_def split: option.splits sum.splits)

lemma parse_cert_dont_filter:
  "list_all (\<lambda>x. case x of Item i \<Rightarrow> True | Req q \<Rightarrow> req_dont_filter q)
     (yielded (parse_cert L proxy_url page))"
  by (auto simp: parse_cert_def Let_def gen_then_def download_all_dont_filter
      split: sum.splits option.splits)

text \<open>
  C5. The image URLs of a detail page's record are the references of the three
  selectors, in the order anchor \<open>href\<close>, \<open>src\<close> of images inside anchors, \<open>src\<close> of
  images in the container, each non-empty reference resolved against the page's base
  URL, with every URL kept once, at its first occurrence: the list has no duplicates, it
  has the same elements as the resolved references, and its elements stand in the order
  of their first positions among them. This is so when \<open>urljoin\<close> resolves every
  reference; the first reference that it refuses ends the callback with its exception,
  before anything is yielded.
\<close>

theorem C5_image_urls_distinct_in_first_seen_order:
  "(let refs = filter (\<lambda>u. u \<noteq> []) (hrefs r @ srcs r @ direct_srcs r);
        resolve = urljoin L (cert_base_url r)
    in (list_all (\<lambda>u. \<not> isl (resolve u)) refs \<longrightarrow>
          (let resolved = map (\<lambda>u. projr (resolve u)) refs;
               imgs = first_occurrences resolved
           in extract_imgs L r = Inr imgs
              \<and> distinct imgs
              \<and> set imgs = set resolved
              \<and> sorted_wrt (\<lambda>a b. length (takeWhile (\<lambda>y. y \<noteq> a) resolved)
                                    < length (takeWhile (\<lambda>y. y \<noteq> b) resolved)) imgs
              \<and> hd (yielded (parse_cert L proxy_url r)) =
                  Item (build_item (meta_cert (cert_meta r)) imgs)
              \<and> map snd (build_item (meta_cert (cert_meta r)) imgs) = meta_cert (cert_meta r) # imgs))
       \<and> (\<forall>pre u post e.
            refs = pre @ u # post \<and> list_all (\<lambda>u. \<not> isl (resolve u)) pre \<and> resolve u = Inl e \<longrightarrow>
            extract_imgs L r = Inl e
            \<and> yielded (parse_cert L proxy_url r) = []
            \<and> raised (parse_cert L proxy_url r) = Some e))"
proof -
  let ?refs = "filter (\<lambda>u. u \<noteq> []) (hrefs r @ srcs r @ direct_srcs r)"
  let ?resolve = "urljoin L (cert_base_url r)"
  have ok: "extract_imgs L r = Inr (first_occurrences (map (\<lambda>u. projr (?resolve u)) ?refs))"
    if "list_all (\<lambda>u. \<not> isl (?resolve u)) ?refs"
    using collect_imgs_resolved [OF that, of "[]"] by (simp add: extract_imgs_def)
  have bad: "extract_imgs L r = Inl e"
    if "?refs = pre @ u # post" "list_all (\<lambda>u. \<not> isl (?resolve u)) pre" "?resolve u = Inl e"
    for pre u post e
    using collect_imgs_refused [OF that, of "[]"] by (simp add: extract_imgs_def)
  show ?thesis
    unfolding Let_def
    using ok bad
    by (auto simp: distinct_first_occurrences set_first_occurrences first_occurrences_order
        parse_cert_item_first parse_cert_refused build_item_values
        simp del: set_append map_append filter_append)
qed

theorem C5_image_urls_witness:
  "extract_imgs sample_lib detail_three =
     Inr [''https://cdn.cgccards.com/a.png'', ''https://www.cgccards.com/certlookup/77/b.jpg'',
          ''https://www.cgccards.com/certlookup/77/c.jpg'']
   \<and> extract_imgs sample_lib detail_bad_reference = Inl ValueError
   \<and> yielded (parse_cert sample_lib ''proxy'' detail_bad_reference) = []"
proof -
  have a: "filter (\<lambda>u. u \<noteq> []) (hrefs detail_bad_reference @ srcs detail_bad_reference
             @ direct_srcs detail_bad_reference) = [''a.png''] @ ''//[x'' # [''b.png'']"
    by (simp add: detail_bad_reference_def)
  have b: "list_all (\<lambda>u. \<not> isl (urljoin sample_lib (cert_base_url detail_bad_reference) u)) [''a.png'']"
    by (simp add: sample_lib_def sample_urljoin_def)
  have c: "urljoin sample_lib (cert_base_url detail_bad_reference) ''//[x'' = Inl ValueError"
    by (simp add: sample_lib_def sample_urljoin_def)
  have bad: "extract_imgs sample_lib detail_bad_reference = Inl ValueError
       \<and> yielded (parse_cert sample_lib ''proxy'' detail_bad_reference) = []"
    using a b c C5_image_urls_distinct_in_first_seen_order [of detail_bad_reference sample_lib "''proxy''"]
    unfolding Let_def by blast
  have good: "extract_imgs sample_lib detail_three =
     Inr [''https://cdn.cgccards.com/a.png'', ''https://www.cgccards.com/certlookup/77/b.jpg'',
          ''https://www.cgccards.com/certlookup/77/c.jpg'']"
    using C5_image_urls_distinct_in_first_seen_order [of detail_three sample_lib "''proxy''"]
    by (simp add: Let_def detail_three_def sample_lib_def sample_urljoin_def)
  from good bad show ?thesis by simp
qed

text \<open>
  C9. Every loaded identifier is claimed to give exactly one record, emitted from its
  detail page. Two identifiers are loaded. On a page whose form has \<open>method="get"\<close> and
  whose input has no name, the first fallback submission raises: no request is yielded
  and the run has no record. On a page where the normal submission works there are two
  requests; when the detail pages hold a reference that \<open>urljoin\<close> refuses, the
  exception leaves \<open>parse_cert\<close> before the item is yielded and the run has no record
  either; when they hold the three images of the example, the run has one record for
  each identifier, keyed by \<open>cert\<close> with the columns \<open>image_1\<close>, \<open>image_2\<close>,
  \<open>image_3\<close>.
\<close>

theorem C9_loaded_identifiers_without_record:
  "read_certs (CsvRows [[''Cert''], [''1234567890''], [''2000000555'']]) =
     Inr [''1234567890'', ''2000000555'']
   \<and> yielded (parse_home sample_lib ''proxy''
        (CsvRows [[''Cert''], [''1234567890''], [''2000000555'']]) home_get_unnamed) = []
   \<and> run_items sample_lib ''proxy'' (CsvRows [[''Cert''], [''1234567890''], [''2000000555'']])
        home_get_unnamed (\<lambda>q. detail_three) = []
   \<and> run_items sample_lib ''proxy'' (CsvRows [[''Cert''], [''1234567890''], [''2000000555'']])
        home_named (\<lambda>q. detail_bad_reference) = []
   \<and> run_items sample_lib ''proxy'' (CsvRows [[''Cert''], [''1234567890''], [''2000000555'']])
        home_named (\<lambda>q. detail_three) =
      [[(''cert'', ''1234567890''), (''image_1'', ''https://cdn.cgccards.com/a.png''),
        (''image_2'', ''https://www.cgccards.com/certlookup/77/b.jpg''),
        (''image_3'', ''https://www.cgccards.com/certlookup/77/c.jpg'')],
       [(''cert'', ''2000000555''), (''image_1'', ''https://cdn.cgccards.com/a.png''),
        (''image_2'', ''https://www.cgccards.com/certlookup/77/b.jpg''),
        (''image_3'', ''https://www.cgccards.com/certlookup/77/c.jpg'')]]"
proof -
  let ?csv = "CsvRows [[''Cert''], [''1234567890''], [''2000000555'']]"
  have m: "form_method_of sample_lib home_get_unnamed = ''GET''"
    by (simp add: form_method_of_def home_get_unnamed_def sample_lib_def sample_method_get)
  have t: "manual_target sample_lib (form_action_of home_get_unnamed) home_get_unnamed
             = Inr ''https://www.cgccards.com/''"
    by (simp add: manual_target_def form_action_of_def home_get_unnamed_def)
  have r: "read_certs ?csv = Inr [''1234567890'', ''2000000555'']"
    by (simp add: read_certs_def row_get_def strip_def py_isspace_def)
  have i: "input_name_of home_get_unnamed = None"
    by (simp add: input_name_of_def home_get_unnamed_def)
  have y: "yielded (parse_home sample_lib ''proxy'' ?csv home_get_unnamed) = []"
    by (simp add: m manual_GET [OF t] parse_home_def r submit_cert_def i gen_then_def)
  have s: "map req_meta (yielded (parse_home sample_lib ''proxy'' ?csv home_named)) =
             [sample_meta ''1234567890'', sample_meta ''2000000555'']"
    by (simp add: r parse_home_def submit_cert_def input_name_of_def home_named_def sample_lib_def
        sample_from_response_def gen_then_def sample_meta_def)
  have run: "run_items sample_lib ''proxy'' ?csv home_named site =
               concat (map (\<lambda>mt. items_of (yielded (parse_cert sample_lib ''proxy''
                         (page\<lparr>cert_meta := mt\<rparr>))))
                       (map req_meta (yielded (parse_home sample_lib ''proxy'' ?csv home_named))))"
    if "site = (\<lambda>q. page)" for site page
    by (simp add: run_items_def that o_def)
  have bad: "extract_imgs sample_lib (detail_bad_reference\<lparr>cert_meta := mt\<rparr>) = Inl ValueError" for mt
    by (simp add: extract_imgs_def detail_bad_reference_def sample_lib_def sample_urljoin_def)
  have good: "extract_imgs sample_lib (detail_three\<lparr>cert_meta := mt\<rparr>) =
     Inr [''https://cdn.cgccards.com/a.png'', ''https://www.cgccards.com/certlookup/77/b.jpg'',
          ''https://www.cgccards.com/certlookup/77/c.jpg'']" for mt
    by (simp add: extract_imgs_def detail_three_def sample_lib_def sample_urljoin_def)
  have su: "set_url sample_lib v = sample_set_url v" for v
    by (simp add: sample_lib_def)
  have items: "items_of (yielded (parse_cert sample_lib ''proxy'' (detail_three\<lparr>cert_meta := mt\<rparr>))) =
     [[(''cert'', meta_cert mt), (''image_1'', ''https://cdn.cgccards.com/a.png''),
        (''image_2'', ''https://www.cgccards.com/certlookup/77/b.jpg''),
        (''image_3'', ''https://www.cgccards.com/certlookup/77/c.jpg'')]]" for mt
    by (simp add: parse_cert_def good Let_def gen_then_def build_item_def str_nat.simps
        digit_char_def yield_built_def scrapy_Request_def Request_keywords_def su
        sample_set_url_def)
  have none: "items_of (yielded (parse_cert sample_lib ''proxy'' (detail_bad_reference\<lparr>cert_meta := mt\<rparr>))) = []" for mt
    by (simp add: parse_cert_def bad Let_def)
  have a: "run_items sample_lib ''proxy'' ?csv home_get_unnamed (\<lambda>q. detail_three) = []"
    by (simp add: y run_items_def)
  have b: "run_items sample_lib ''proxy'' ?csv home_named (\<lambda>q. detail_bad_reference) = []"
    by (simp add: run [OF refl] s none)
  have c: "run_items sample_lib ''proxy'' ?csv home_named (\<lambda>q. detail_three) =
      [[(''cert'', ''1234567890''), (''image_1'', ''https://cdn.cgccards.com/a.png''),
        (''image_2'', ''https://www.cgccards.com/certlookup/77/b.jpg''),
        (''image_3'', ''https://www.cgccards.com/certlookup/77/c.jpg'')],
       [(''cert'', ''2000000555''), (''image_1'', ''https://cdn.cgccards.com/a.png''),
        (''image_2'', ''https://www.cgccards.com/certlookup/77/b.jpg''),
        (''image_3'', ''https://www.cgccards.com/certlookup/77/c.jpg'')]]"
    by (simp add: run [OF refl] s items sample_meta_def)
  from r y a b c show ?thesis by (intro conjI)
qed

subsection \<open>Downloader\<close>















subsection \<open>Duplicate identifiers\<close>

text \<open>
  C10. Duplicate identifiers are claimed to be kept, every request being made with
  duplicate filtering switched off, and their downloads to go to
  \<open>{output_root}/{certificate_id}/image_{index}.{ext}\<close>. Every request that
  \<open>parse_home\<close> and \<open>parse_cert\<close> yield has \<open>dont_filter\<close> set. A file with the
  identifier \<open>/tmp\<close> in two rows loads it twice and, on a page where the normal
  submission works, gives two submissions. The image of that identifier is saved to
  \<open>/tmp/image_1.png\<close>: \<open>os.path.join\<close> of the output root and an absolute identifier
  drops the output root, and nothing is written below \<open>images\<close>.
\<close>

theorem C10_identifier_that_is_an_absolute_path:
  "list_all req_dont_filter (yielded (parse_home L proxy_url csv response))
   \<and> list_all (\<lambda>x. case x of Item i \<Rightarrow> True | Req q \<Rightarrow> req_dont_filter q)
         (yielded (parse_cert L proxy_url page))
   \<and> read_certs (CsvRows [[''Cert''], [''/tmp''], [''/tmp'']]) = Inr [''/tmp'', ''/tmp'']
   \<and> map (\<lambda>q. meta_cert (req_meta q))
        (yielded (parse_home sample_lib ''proxy'' (CsvRows [[''Cert''], [''/tmp''], [''/tmp'']])
           home_named)) = [''/tmp'', ''/tmp'']
   \<and> image_folder (front_png ''/tmp'') = ''/tmp''
   \<and> image_path sample_lib (front_png ''/tmp'') = ''/tmp/image_1.png''
   \<and> fst (save_image sample_lib io_ok Map.empty (front_png ''/tmp'')) ''/tmp/image_1.png''
        = Some ''ABCD''
   \<and> fst (save_image sample_lib io_ok Map.empty (front_png ''/tmp'')) ''images//tmp/image_1.png''
        = None"
proof -
  have r: "read_certs (CsvRows [[''Cert''], [''/tmp''], [''/tmp'']]) = Inr [''/tmp'', ''/tmp'']"
    by (simp add: read_certs_def row_get_def strip_def py_isspace_def)
  have s: "map (\<lambda>q. meta_cert (req_meta q))
        (yielded (parse_home sample_lib ''proxy'' (CsvRows [[''Cert''], [''/tmp''], [''/tmp'']])
           home_named)) = [''/tmp'', ''/tmp'']"
    by (simp add: r parse_home_def submit_cert_def input_name_of_def home_named_def sample_lib_def
        sample_from_response_def gen_then_def)
  have f: "image_folder (front_png ''/tmp'') = ''/tmp''"
    by (simp add: image_folder_def os_path_join_def images_store_def front_png_def)
  have p: "image_path sample_lib (front_png ''/tmp'') = ''/tmp/image_1.png''"
    by (simp add: image_path_def image_folder_def os_path_join_def images_store_def front_png_def
        choose_ext_def ext_from_url_def splitext_def basename_def sample_lib_def
        sample_urlsplit_path_def str_nat.simps digit_char_def Let_def)
  have w: "fst (save_image sample_lib io_ok Map.empty (front_png ''/tmp'')) ''/tmp/image_1.png''
             = Some ''ABCD''
           \<and> fst (save_image sample_lib io_ok Map.empty (front_png ''/tmp''))
               ''images//tmp/image_1.png'' = None"
    by (simp add: f p save_image_def io_ok_def Let_def) (simp add: front_png_def)
  from parse_home_dont_filter parse_cert_dont_filter r s f p w show ?thesis
    by (intro conjI) simp_all
qed

end
